theory Spec2Isabelle
  imports Complex_Main "HOL-Library.Word"
begin

section \<open>Floating-point values\<close>

text \<open>
  A C++ \<open>float\<close> or \<open>double\<close> is NaN, an infinity or a number; the numbers are kept as
  rationals. Comparisons with NaN are false, as in IEEE 754. Zero has no sign here:
  \<open>-0.0\<close> and \<open>+0.0\<close> are the one number 0, as they are in every comparison.
\<close>

datatype float32 = NaN | PInf | MInf | Fin rat

fun isnan :: "float32 \<Rightarrow> bool" where
  "isnan NaN = True"
| "isnan a = False"

fun fless :: "float32 \<Rightarrow> float32 \<Rightarrow> bool" where
  "fless NaN b = False"
| "fless a NaN = False"
| "fless PInf b = False"
| "fless a MInf = False"
| "fless MInf b = True"
| "fless a PInf = True"
| "fless (Fin x) (Fin y) = (x < y)"

fun fle :: "float32 \<Rightarrow> float32 \<Rightarrow> bool" where
  "fle NaN b = False"
| "fle a NaN = False"
| "fle MInf b = True"
| "fle a PInf = True"
| "fle PInf b = False"
| "fle a MInf = False"
| "fle (Fin x) (Fin y) = (x \<le> y)"

fun fneg :: "float32 \<Rightarrow> float32" where
  "fneg NaN = NaN"
| "fneg PInf = MInf"
| "fneg MInf = PInf"
| "fneg (Fin x) = Fin (- x)"

fun fabs :: "float32 \<Rightarrow> float32" where
  "fabs NaN = NaN"
| "fabs PInf = PInf"
| "fabs MInf = PInf"
| "fabs (Fin x) = Fin \<bar>x\<bar>"

text \<open>
  The exact result of an operation, before it is rounded: the sum, the product and the
  quotient on numbers, and the IEEE 754 rules for NaN and the infinities. A number divided
  by zero is the infinity of the number's sign (the zero taken as +0), zero by zero NaN.
\<close>

fun fsgn :: "float32 \<Rightarrow> int" where
  "fsgn NaN = 0"
| "fsgn PInf = 1"
| "fsgn MInf = - 1"
| "fsgn (Fin x) = (if 0 < x then 1 else if x < 0 then - 1 else 0)"

definition inf_of_sign :: "int \<Rightarrow> float32" where
  "inf_of_sign s = (if 0 < s then PInf else if s < 0 then MInf else NaN)"

fun xadd :: "float32 \<Rightarrow> float32 \<Rightarrow> float32" where
  "xadd (Fin x) (Fin y) = Fin (x + y)"
| "xadd NaN b = NaN"
| "xadd a NaN = NaN"
| "xadd PInf MInf = NaN"
| "xadd MInf PInf = NaN"
| "xadd PInf b = PInf"
| "xadd a PInf = PInf"
| "xadd MInf b = MInf"
| "xadd a MInf = MInf"

fun xmul :: "float32 \<Rightarrow> float32 \<Rightarrow> float32" where
  "xmul (Fin x) (Fin y) = Fin (x * y)"
| "xmul a b = inf_of_sign (fsgn a * fsgn b)"

fun xdiv :: "float32 \<Rightarrow> float32 \<Rightarrow> float32" where
  "xdiv (Fin x) (Fin y) = (if y = 0 then inf_of_sign (fsgn (Fin x)) else Fin (x / y))"
| "xdiv NaN b = NaN"
| "xdiv a NaN = NaN"
| "xdiv (Fin x) b = Fin 0"
| "xdiv a (Fin y) = inf_of_sign (fsgn a * (if y < 0 then - 1 else 1))"
| "xdiv a b = NaN"

text \<open>
  Rounding to a binary format of precision \<open>p\<close>, least exponent \<open>emin\<close> and largest
  finite value \<open>largest\<close>: to the nearest number of the format, a tie to the one with the
  even significand, a result beyond \<open>largest\<close> to the infinity; below \<open>2 ^ emin\<close> the
  numbers of the format are equally spaced (subnormal). \<open>bitlen\<close> is the number of binary
  digits of a positive integer (\<open>bitlen_from\<close> halves it until nothing is left; its flag
  says that nothing is left), \<open>ilog2 x\<close> the exponent \<open>e\<close> with
  \<open>2 ^ e \<le> |x| < 2 ^ (e + 1)\<close>.
\<close>

definition round_half_even :: "rat \<Rightarrow> int" where
  "round_half_even r =
     (let f = \<lfloor>r\<rfloor>; d = r - of_int f in
      if d < 1 / 2 then f else if 1 / 2 < d then f + 1 else if even f then f else f + 1)"

function bitlen_from :: "bool \<Rightarrow> int \<Rightarrow> int" where
  "bitlen_from True n = 0"
| "bitlen_from False n = 1 + bitlen_from (n div 2 \<le> 0) (n div 2)"
  by pat_completeness auto
termination
  by (relation "measure (\<lambda>(stop, n). if stop then 0 else Suc (nat n))") auto

definition bitlen :: "int \<Rightarrow> int" where
  "bitlen n = bitlen_from (n \<le> 0) n"

definition pow2 :: "int \<Rightarrow> rat" where
  "pow2 k = (if 0 \<le> k then 2 ^ nat k else 1 / 2 ^ nat (- k))"

definition ilog2 :: "rat \<Rightarrow> int" where
  "ilog2 x =
     (let d = bitlen (fst (quotient_of \<bar>x\<bar>)) - bitlen (snd (quotient_of \<bar>x\<bar>))
      in if pow2 d \<le> \<bar>x\<bar> then d else d - 1)"

definition round_to :: "nat \<Rightarrow> int \<Rightarrow> rat \<Rightarrow> rat \<Rightarrow> float32" where
  "round_to p emin largest x =
     (if x = 0 then Fin 0
      else
        (let e = max (ilog2 x) emin;
             q = pow2 (e - int p + 1);
             y = of_int (round_half_even (x / q)) * q
         in if largest < y then PInf else if y < - largest then MInf else Fin y))"

definition FLT_MAX :: rat where
  "FLT_MAX = 340282346638528859811704183484516925440"

definition DBL_MAX :: rat where
  "DBL_MAX = 179769313486231570814527423731704356798070567525844996598917476803157260780028538760589558632766878171540458953514382464234321326889464182768467546703537516986049910576551282076245490090389328944075868508455133942304583236903222948165808559332123348274797826204144723168738177180919299881250404026184124858368"

text \<open>\<open>float\<close> is binary32, \<open>double\<close> is binary64.\<close>

fun to_float :: "float32 \<Rightarrow> float32" where
  "to_float (Fin x) = round_to 24 (- 126) FLT_MAX x"
| "to_float a = a"

fun to_double :: "float32 \<Rightarrow> float32" where
  "to_double (Fin x) = round_to 53 (- 1022) DBL_MAX x"
| "to_double a = a"

text \<open>
  The C++ operators on \<open>float\<close> operands, and the division on \<open>double\<close> operands: every
  operation is rounded to its format by itself (round to nearest; no fused multiply-add and
  no wider intermediate format).
\<close>

definition fadd :: "float32 \<Rightarrow> float32 \<Rightarrow> float32" where
  "fadd a b = to_float (xadd a b)"

definition fsub :: "float32 \<Rightarrow> float32 \<Rightarrow> float32" where
  "fsub a b = to_float (xadd a (fneg b))"

definition fmul :: "float32 \<Rightarrow> float32 \<Rightarrow> float32" where
  "fmul a b = to_float (xmul a b)"

definition fdiv :: "float32 \<Rightarrow> float32 \<Rightarrow> float32" where
  "fdiv a b = to_float (xdiv a b)"

definition ddiv :: "float32 \<Rightarrow> float32 \<Rightarrow> float32" where
  "ddiv a b = to_double (xdiv a b)"

text \<open>The literal \<open>0.1f\<close>: the binary32 number nearest to 1/10.\<close>

definition lit_0_1f :: float32 where
  "lit_0_1f = Fin (13421773 / 134217728)"

text \<open>\<open>std::min(a, b)\<close> is \<open>(b < a) ? b : a\<close>; \<open>std::max(a, b)\<close> is \<open>(a < b) ? b : a\<close>.\<close>

definition std_min :: "float32 \<Rightarrow> float32 \<Rightarrow> float32" where
  "std_min a b = (if fless b a then b else a)"

definition std_max :: "float32 \<Rightarrow> float32 \<Rightarrow> float32" where
  "std_max a b = (if fless a b then b else a)"

section \<open>Images\<close>

text \<open>
  The \<open>cv::Mat\<close> types the code tells apart. \<open>CV_8U\<close> is also written \<open>CV_8UC1\<close> and
  \<open>CV_32F\<close> also \<open>CV_32FC1\<close> in the source; \<open>CV_OtherType\<close> is any type that is none of
  the six.
\<close>

datatype mat_type = CV_8U | CV_16U | CV_32S | CV_32F | CV_8UC3 | CV_8UC4 | CV_OtherType

text \<open>
  An image is its rows, each row the samples in storage order (the channels of a
  multi-channel pixel side by side, as \<open>img.ptr(r)\<close> sees them). An image of another type
  carries the numeric values of its samples.
\<close>

datatype Mat =
    Mat8U "8 word list list"
  | Mat16U "16 word list list"
  | Mat32S "32 word list list"
  | Mat32F "float32 list list"
  | Mat8UC3 "8 word list list"
  | Mat8UC4 "8 word list list"
  | MatOther "float32 list list"

fun mtype :: "Mat \<Rightarrow> mat_type" where
  "mtype (Mat8U rs) = CV_8U"
| "mtype (Mat16U rs) = CV_16U"
| "mtype (Mat32S rs) = CV_32S"
| "mtype (Mat32F rs) = CV_32F"
| "mtype (Mat8UC3 rs) = CV_8UC3"
| "mtype (Mat8UC4 rs) = CV_8UC4"
| "mtype (MatOther rs) = CV_OtherType"

text \<open>The numeric value of every sample, as the OpenCV element-wise operations read it.\<close>

fun samples :: "Mat \<Rightarrow> float32 list list" where
  "samples (Mat8U rs) = map (map (\<lambda>v. Fin (of_nat (unat v)))) rs"
| "samples (Mat16U rs) = map (map (\<lambda>v. Fin (of_nat (unat v)))) rs"
| "samples (Mat32S rs) = map (map (\<lambda>v. Fin (of_int (sint v)))) rs"
| "samples (Mat32F rs) = rs"
| "samples (Mat8UC3 rs) = map (map (\<lambda>v. Fin (of_nat (unat v)))) rs"
| "samples (Mat8UC4 rs) = map (map (\<lambda>v. Fin (of_nat (unat v)))) rs"
| "samples (MatOther rs) = rs"

section \<open>Failures\<close>

text \<open>
  \<open>Bail\<close> is a call of \<open>bail(message)\<close> (CppBaseUtil, not part of this repository: it does
  not return), \<open>RuntimeError\<close> a thrown \<open>std::runtime_error\<close>. \<open>InvalidArgument\<close> is the
  failure the specification gives the percentile finder and a non-positive bin count.
  \<open>OutOfBounds\<close> is a write or read past the end of a \<open>std::vector\<close>, or a shift by a
  count outside 0..31: undefined behaviour in C++, a failure here.
\<close>

datatype error = Bail string | RuntimeError string | InvalidArgument | OutOfBounds

section \<open>Buffer statistics\<close>

text \<open>The fallback scan of \<open>imgMinMax\<close>: the inner loop over a row, the outer over the rows.\<close>

fun minmax_row :: "float32 list \<Rightarrow> float32 \<times> float32 \<Rightarrow> float32 \<times> float32" where
  "minmax_row [] (lowVal, highVal) = (lowVal, highVal)"
| "minmax_row (val # p) (lowVal, highVal) =
     (if \<not> isnan val then minmax_row p (std_min lowVal val, std_max highVal val)
      else minmax_row p (lowVal, highVal))"

fun minmax_rows :: "float32 list list \<Rightarrow> float32 \<times> float32 \<Rightarrow> float32 \<times> float32" where
  "minmax_rows [] acc = acc"
| "minmax_rows (p # rs) acc = minmax_rows rs (minmax_row p acc)"

text \<open>
  \<open>imgMinMax\<close>. The parameter \<open>minMaxLoc\<close> is OpenCV's \<open>cv::minMaxLoc\<close>, which is not
  part of this repository: it gives the minimum and the maximum it reports for an image,
  two \<open>double\<close>s, which \<open>imgMinMax\<close> narrows to \<open>float\<close>.
\<close>

definition imgMinMax :: "(Mat \<Rightarrow> float32 \<times> float32) \<Rightarrow> Mat \<Rightarrow> error + float32 \<times> float32" where
  "imgMinMax minMaxLoc img =
     (let (minVal, maxVal) = minMaxLoc img;
          lowVal = to_float minVal;
          highVal = to_float maxVal
      in
      if isnan lowVal \<or> isnan highVal then
        (case img of
           Mat32F rs \<Rightarrow>
             (let (lowVal, highVal) = minmax_rows rs (Fin FLT_MAX, Fin (- FLT_MAX)) in
              if fless highVal lowVal then Inr (NaN, NaN) else Inr (lowVal, highVal))
         | _ \<Rightarrow> Inl (Bail ''minmax gave nan on non-32f image''))
      else Inr (lowVal, highVal))"

section \<open>Histograms\<close>

text \<open>
  \<open>counts[i]++\<close> on a \<open>std::vector<int>\<close>. The counters are unbounded integers here: a
  C++ \<open>int\<close> counter overflows only after more than 2147483647 samples in one slot.
\<close>

definition incr_at :: "int list \<Rightarrow> nat \<Rightarrow> error + int list" where
  "incr_at counts i = (if i < length counts then Inr (counts[i := counts ! i + 1]) else Inl OutOfBounds)"

text \<open>
  The two loops of \<open>histInt\<close>, for a row of 8-bit or of 16-bit samples: every sample
  increments the slot \<open>ps[x] >> binShift\<close> (the sample is promoted to \<open>int\<close> first).
\<close>

fun histInt_row :: "nat \<Rightarrow> 'a::len word list \<Rightarrow> int list \<Rightarrow> error + int list" where
  "histInt_row binShift [] counts = Inr counts"
| "histInt_row binShift (v # ps) counts =
     (case incr_at counts (drop_bit binShift (unat v)) of
        Inl e \<Rightarrow> Inl e
      | Inr counts' \<Rightarrow> histInt_row binShift ps counts')"

fun histInt_rows :: "nat \<Rightarrow> 'a::len word list list \<Rightarrow> int list \<Rightarrow> error + int list" where
  "histInt_rows binShift [] counts = Inr counts"
| "histInt_rows binShift (ps # rs) counts =
     (case histInt_row binShift ps counts of
        Inl e \<Rightarrow> Inl e
      | Inr counts' \<Rightarrow> histInt_rows binShift rs counts')"

text \<open>\<open>histInt(img)\<close>: one slot for every value of the type.\<close>

definition histInt :: "Mat \<Rightarrow> error + int list" where
  "histInt img =
     (case img of
        Mat8U rs \<Rightarrow> histInt_rows 0 rs (replicate 256 0)
      | Mat16U rs \<Rightarrow> histInt_rows 0 rs (replicate 65536 0)
      | _ \<Rightarrow> Inl (Bail ''histInt: Type not handled yet.''))"

text \<open>
  \<open>histInt(img, binShift)\<close>. \<open>256 >> binShift\<close> is an \<open>int\<close> shift: a count below 0 or
  above 31 is undefined.
\<close>

definition histInt_shift :: "Mat \<Rightarrow> int \<Rightarrow> error + int list" where
  "histInt_shift img binShift =
     (case img of
        Mat8U rs \<Rightarrow>
          (if binShift < 0 \<or> 31 < binShift then Inl OutOfBounds
           else histInt_rows (nat binShift) rs (replicate (drop_bit (nat binShift) 256) 0))
      | Mat16U rs \<Rightarrow>
          (if binShift < 0 \<or> 31 < binShift then Inl OutOfBounds
           else histInt_rows (nat binShift) rs (replicate (drop_bit (nat binShift) 65536) 0))
      | _ \<Rightarrow> Inl (Bail ''histInt: Type not handled yet.''))"

text \<open>
  Modelled from the spec: \<open>cv::calcHist\<close> with one uniform range, which is OpenCV's and not
  part of this repository. The specification (4.2) has the data binned uniformly over the
  half-open range from \<open>minVal\<close> to the widened \<open>maxVal\<close>, in one pass over the buffer, and
  the source's comment says the upper value of the range is exclusive. A sample in the
  range goes to the bin its offset from the lower bound selects (the first bin when a
  bound is infinite); a sample outside the range, or NaN, is not counted. The bin of a
  sample is computed exactly.
\<close>

fun calcHist_index :: "nat \<Rightarrow> float32 \<Rightarrow> float32 \<Rightarrow> float32 \<Rightarrow> nat" where
  "calcHist_index binCount (Fin lo) (Fin hi) (Fin v) = nat \<lfloor>(v - lo) * of_nat binCount / (hi - lo)\<rfloor>"
| "calcHist_index binCount lo hi v = 0"

definition calcHist_bin :: "nat \<Rightarrow> float32 \<Rightarrow> float32 \<Rightarrow> float32 \<Rightarrow> nat option" where
  "calcHist_bin binCount lo hi v =
     (if fle lo v \<and> fless v hi then Some (calcHist_index binCount lo hi v) else None)"

fun calcHist_row :: "nat \<Rightarrow> float32 \<Rightarrow> float32 \<Rightarrow> float32 list \<Rightarrow> int list \<Rightarrow> int list" where
  "calcHist_row binCount lo hi [] hist = hist"
| "calcHist_row binCount lo hi (v # p) hist =
     (case calcHist_bin binCount lo hi v of
        None \<Rightarrow> calcHist_row binCount lo hi p hist
      | Some i \<Rightarrow> calcHist_row binCount lo hi p (if i < length hist then hist[i := hist ! i + 1] else hist))"

fun calcHist_rows :: "nat \<Rightarrow> float32 \<Rightarrow> float32 \<Rightarrow> float32 list list \<Rightarrow> int list \<Rightarrow> int list" where
  "calcHist_rows binCount lo hi [] hist = hist"
| "calcHist_rows binCount lo hi (p # rs) hist =
     calcHist_rows binCount lo hi rs (calcHist_row binCount lo hi p hist)"

definition calcHist :: "Mat \<Rightarrow> nat \<Rightarrow> float32 \<Rightarrow> float32 \<Rightarrow> int list" where
  "calcHist img binCount lo hi = calcHist_rows binCount lo hi (samples img) (replicate binCount 0)"

text \<open>
  What \<open>histFloat(img, binCount, minVal, maxVal, bins, hist)\<close> leaves in its four reference
  parameters.
\<close>

record histFloat_out =
  out_minVal :: float32
  out_maxVal :: float32
  out_bins :: "float32 list"
  out_hist :: "int list"

text \<open>
  \<open>histFloat\<close>. A bin count of zero or less makes \<open>bins.resize\<close> or \<open>cv::calcHist\<close> throw;
  the specification (7) names that failure \<open>InvalidArgument\<close>. The bin size, the bin
  edges and the widened \<open>maxVal\<close> are computed in \<open>float\<close>, the \<open>int\<close> operands
  \<open>binCount\<close> and \<open>i\<close> converted to \<open>float\<close> first.
\<close>

definition histFloat ::
  "(Mat \<Rightarrow> float32 \<times> float32) \<Rightarrow> Mat \<Rightarrow> int \<Rightarrow> float32 \<Rightarrow> float32 \<Rightarrow> error + histFloat_out" where
  "histFloat minMaxLoc img binCount minVal0 maxVal0 =
     (let minVal = (if isnan minVal0 then Fin 0 else minVal0) in
      case (if isnan maxVal0
            then (case imgMinMax minMaxLoc img of Inl e \<Rightarrow> Inl e | Inr minMax \<Rightarrow> Inr (snd minMax))
            else Inr maxVal0) of
        Inl e \<Rightarrow> Inl e
      | Inr maxVal \<Rightarrow>
          if isnan maxVal then
            Inr \<lparr>out_minVal = minVal, out_maxVal = maxVal, out_bins = [], out_hist = []\<rparr>
          else if fle maxVal minVal then
            Inr \<lparr>out_minVal = minVal, out_maxVal = maxVal, out_bins = [minVal], out_hist = [0]\<rparr>
          else if binCount \<le> 0 then Inl InvalidArgument
          else
            (let binSize = fdiv (fsub maxVal minVal) (to_float (Fin (of_int binCount)));
                 bins = map (\<lambda>i. fadd minVal (fmul (to_float (Fin (of_nat i))) binSize))
                          [0..<nat binCount];
                 maxVal' = fadd maxVal (fmul lit_0_1f binSize)
             in Inr \<lparr>out_minVal = minVal, out_maxVal = maxVal', out_bins = bins,
                     out_hist = calcHist img (nat binCount) minVal maxVal'\<rparr>))"

section \<open>Percentiles\<close>

text \<open>
  Modelled from the spec: \<open>findPercentileInHist\<close> of CppBaseUtil's MathUtil, which is not
  among the repository's files. The specification (4.3) computes
  \<open>target = percentile / 100 * sum(counts)\<close>, walks the bins in order with a running sum
  and returns the index of the first bin where the running sum reaches or exceeds the
  target; empty counts fail with \<open>InvalidArgument\<close>. It gives no result when no bin reaches
  the target (a percentile that is NaN or above 100): the model fails there as well. The
  target is the specification's formula, computed exactly.
\<close>

fun percentile_walk :: "int list \<Rightarrow> float32 \<Rightarrow> int \<Rightarrow> nat \<Rightarrow> nat option" where
  "percentile_walk [] target running i = None"
| "percentile_walk (c # cs) target running i =
     (if fle target (Fin (of_int (running + c))) then Some i
      else percentile_walk cs target (running + c) (Suc i))"

definition findPercentileInHist :: "int list \<Rightarrow> float32 \<Rightarrow> error + nat" where
  "findPercentileInHist counts percentile =
     (if counts = [] then Inl InvalidArgument
      else
        (let target = xmul (xdiv percentile (Fin 100)) (Fin (of_int (sum_list counts))) in
         case percentile_walk counts target 0 0 of
           None \<Rightarrow> Inl InvalidArgument
         | Some i \<Rightarrow> Inr i))"

text \<open>\<open>histPercentilesInt\<close>: the two percentile indices of the exact histogram.\<close>

definition histPercentilesInt :: "Mat \<Rightarrow> float32 \<Rightarrow> float32 \<Rightarrow> error + nat \<times> nat" where
  "histPercentilesInt img lowPct highPct =
     (if mtype img = CV_8U \<or> mtype img = CV_16U then
        (case histInt img of
           Inl e \<Rightarrow> Inl e
         | Inr counts \<Rightarrow>
             (case findPercentileInHist counts lowPct of
                Inl e \<Rightarrow> Inl e
              | Inr lowIdx \<Rightarrow>
                  (case findPercentileInHist counts highPct of
                     Inl e \<Rightarrow> Inl e
                   | Inr highIdx \<Rightarrow> Inr (lowIdx, highIdx))))
      else Inl (Bail ''histPercentiles: Unsupported image type''))"

text \<open>\<open>bins[i]\<close> on a \<open>std::vector<float>\<close>.\<close>

definition at_index :: "float32 list \<Rightarrow> nat \<Rightarrow> error + float32" where
  "at_index bins i = (if i < length bins then Inr (bins ! i) else Inl OutOfBounds)"

text \<open>
  \<open>histPercentiles32f\<close>: a 256-bin \<open>histFloat\<close> with \<open>minVal\<close> and \<open>maxVal\<close> both passed
  as NaN, then the lower edges of the two percentile bins.
\<close>

definition histPercentiles32f ::
  "(Mat \<Rightarrow> float32 \<times> float32) \<Rightarrow> Mat \<Rightarrow> float32 \<Rightarrow> float32 \<Rightarrow> error + float32 \<times> float32" where
  "histPercentiles32f minMaxLoc img lowPct highPct =
     (if mtype img = CV_32F then
        (case histFloat minMaxLoc img 256 NaN NaN of
           Inl e \<Rightarrow> Inl e
         | Inr h \<Rightarrow>
             (case findPercentileInHist (out_hist h) lowPct of
                Inl e \<Rightarrow> Inl e
              | Inr lowIdx \<Rightarrow>
                  (case findPercentileInHist (out_hist h) highPct of
                     Inl e \<Rightarrow> Inl e
                   | Inr highIdx \<Rightarrow>
                       (case at_index (out_bins h) lowIdx of
                          Inl e \<Rightarrow> Inl e
                        | Inr lowValue \<Rightarrow>
                            (case at_index (out_bins h) highIdx of
                               Inl e \<Rightarrow> Inl e
                             | Inr highValue \<Rightarrow> Inr (lowValue, highValue))))))
      else Inl (Bail ''histPercentiles32f: Unsupported image type''))"

text \<open>\<open>histPercentiles\<close>: the dispatch on the image type.\<close>

definition histPercentiles ::
  "(Mat \<Rightarrow> float32 \<times> float32) \<Rightarrow> Mat \<Rightarrow> float32 \<Rightarrow> float32 \<Rightarrow> error + float32 \<times> float32" where
  "histPercentiles minMaxLoc img lowPct highPct =
     (if mtype img = CV_8U \<or> mtype img = CV_16U then
        (case histPercentilesInt img lowPct highPct of
           Inl e \<Rightarrow> Inl e
         | Inr t \<Rightarrow> Inr (to_float (Fin (of_nat (fst t))), to_float (Fin (of_nat (snd t)))))
      else if mtype img = CV_32F then histPercentiles32f minMaxLoc img lowPct highPct
      else Inl (Bail ''histPercentiles: Unsupported image type''))"

section \<open>Conversion to 8 bits\<close>

text \<open>
  \<open>cv::convertScaleAbs\<close> is OpenCV's: on every sample it scales, takes the absolute value
  and converts to 8 bits, \<open>saturate_cast<uchar>(|src * alpha + beta|)\<close>, the sample
  converted to \<open>float\<close> and the product and the sum computed in \<open>float\<close>. The conversion
  rounds to the nearest integer, a tie to the even one (\<open>cvRound\<close>), and saturates at 255.
  What it stores for a NaN or an infinity is not determined by the source: \<open>None\<close>.
\<close>

definition cvRound :: "rat \<Rightarrow> int" where
  "cvRound r = round_half_even r"

definition saturate_uchar :: "int \<Rightarrow> 8 word" where
  "saturate_uchar i = (if i < 0 then 0 else if 255 < i then 255 else word_of_int i)"

definition convertScaleAbs_sample :: "float32 \<Rightarrow> float32 \<Rightarrow> float32 \<Rightarrow> 8 word option" where
  "convertScaleAbs_sample alpha beta v =
     (case fabs (fadd (fmul (to_float v) alpha) beta) of
        Fin r \<Rightarrow> Some (saturate_uchar (cvRound r))
      | _ \<Rightarrow> None)"

definition convertScaleAbs :: "Mat \<Rightarrow> float32 \<Rightarrow> float32 \<Rightarrow> 8 word option list list" where
  "convertScaleAbs img alpha beta = map (map (convertScaleAbs_sample alpha beta)) (samples img)"

text \<open>
  \<open>imgTo8u\<close>: the samples it leaves in \<open>dst\<close>. \<open>alpha\<close> is
  \<open>(float)(255.0 / (float)(highVal - lowVal))\<close>: a \<open>float\<close> difference, a \<open>double\<close>
  quotient, narrowed to \<open>float\<close>; \<open>beta\<close> is the \<open>float\<close> product \<open>-alpha * lowVal\<close>.
\<close>

definition imgTo8u ::
  "(Mat \<Rightarrow> float32 \<times> float32) \<Rightarrow> Mat \<Rightarrow> float32 \<Rightarrow> float32 \<Rightarrow> error + 8 word option list list" where
  "imgTo8u minMaxLoc img lowVal0 highVal0 =
     (case (if fle highVal0 lowVal0 then imgMinMax minMaxLoc img else Inr (lowVal0, highVal0)) of
        Inl e \<Rightarrow> Inl e
      | Inr (lowVal, highVal) \<Rightarrow>
          (let alpha = to_float (ddiv (Fin 255) (fsub highVal lowVal));
               beta = fmul (fneg alpha) lowVal
           in Inr (convertScaleAbs img alpha beta)))"

section \<open>Conversion for saving\<close>

text \<open>
  What \<open>convertForSave\<close> leaves in \<open>dst\<close>: the samples \<open>imgTo8u\<close> computed, or the OpenCV
  call that produced \<open>dst\<close> from \<open>img\<close> (\<open>img.convertTo(dst, rtype)\<close>,
  \<open>cv::cvtColor(img, dst, code)\<close>), or \<open>img\<close> itself (\<open>dst = img\<close>).
\<close>

datatype color_code = COLOR_GRAY2BGR | COLOR_BGRA2BGR | COLOR_BGR2GRAY | COLOR_BGRA2GRAY

datatype dst_mat =
    ImgTo8u "8 word option list list"
  | ConvertTo mat_type
  | CvtColor color_code
  | SameAsImg

text \<open>
  The type of \<open>dst\<close>, by OpenCV's rules on the images \<open>convertForSave\<close> hands to each call:
  \<open>convertScaleAbs\<close> and \<open>convertTo\<close> keep the channel count (here one) and give the
  requested depth; gray to BGR gives three channels of the source's depth; BGRA to BGR
  gives three channels, BGR or BGRA to gray one.
\<close>

fun dst_type :: "Mat \<Rightarrow> dst_mat \<Rightarrow> mat_type" where
  "dst_type img (ImgTo8u d) = CV_8U"
| "dst_type img (ConvertTo rtype) = rtype"
| "dst_type img (CvtColor COLOR_GRAY2BGR) = (if mtype img = CV_8U then CV_8UC3 else CV_OtherType)"
| "dst_type img (CvtColor COLOR_BGRA2BGR) = CV_8UC3"
| "dst_type img (CvtColor COLOR_BGR2GRAY) = CV_8U"
| "dst_type img (CvtColor COLOR_BGRA2GRAY) = CV_8U"
| "dst_type img SameAsImg = mtype img"

text \<open>
  \<open>convertForSave\<close>: the returned flag and \<open>dst\<close>. \<open>getNormalizedExt\<close> is CppBaseUtil's
  (StringUtil) and not part of this repository: a parameter.
\<close>

definition convertForSave ::
  "(string \<Rightarrow> string) \<Rightarrow> (Mat \<Rightarrow> float32 \<times> float32) \<Rightarrow> Mat \<Rightarrow> string \<Rightarrow> error + bool \<times> dst_mat" where
  "convertForSave getNormalizedExt minMaxLoc img inputExt =
     (let ext = getNormalizedExt inputExt;
          isTiff = (ext = ''tif'' \<or> ext = ''tiff'');
          type = mtype img
      in
      if (type = CV_16U \<or> type = CV_32S \<or> type = CV_32F) \<and> \<not> isTiff then
        (case histPercentiles minMaxLoc img (Fin 1) (Fin 99) of
           Inl e \<Rightarrow> Inl e
         | Inr t \<Rightarrow>
             (case imgTo8u minMaxLoc img (fst t) (snd t) of
                Inl e \<Rightarrow> Inl e
              | Inr d \<Rightarrow> Inr (True, ImgTo8u d)))
      else if type = CV_32S \<and> isTiff then Inr (True, ConvertTo CV_32F)
      else if ext = ''ppm'' then
        (if type = CV_8U \<or> type = CV_16U \<or> type = CV_32S \<or> type = CV_32F then
           Inr (True, CvtColor COLOR_GRAY2BGR)
         else if type = CV_8UC3 then Inr (False, SameAsImg)
         else if type = CV_8UC4 then Inr (True, CvtColor COLOR_BGRA2BGR)
         else Inl (RuntimeError ''Unhandled input image type for ppm output.''))
      else if ext = ''pbm'' \<or> ext = ''pgm'' then
        (if type = CV_8U \<or> type = CV_16U \<or> type = CV_32S \<or> type = CV_32F then
           Inr (True, ConvertTo CV_8U)
         else if type = CV_8UC3 then Inr (True, CvtColor COLOR_BGR2GRAY)
         else if type = CV_8UC4 then Inr (True, CvtColor COLOR_BGRA2GRAY)
         else Inl (RuntimeError ''Unhandled input image type for pbm output.''))
      else Inr (False, SameAsImg))"

section \<open>Facts about the floating-point values\<close>

lemma isnan_round_to: "\<not> isnan (round_to p emin largest x)"
  by (simp add: round_to_def Let_def)

lemma isnan_to_float: "isnan (to_float a) = isnan a"
  by (cases a) (simp_all add: isnan_round_to)

lemma round_to_zero: "round_to p emin largest 0 = Fin 0"
  by (simp add: round_to_def)

lemma fless_isnan: "isnan b \<Longrightarrow> \<not> fless a b"
  by (cases a; cases b) simp_all

lemma fle_isnan: "fle a b \<Longrightarrow> \<not> isnan a \<and> \<not> isnan b"
  by (cases a; cases b) simp_all

lemma fle_not_fless: "fle b a \<Longrightarrow> \<not> fless a b"
  by (cases a; cases b) simp_all

lemma fless_not_fle: "fless a b \<Longrightarrow> \<not> fle b a \<and> \<not> isnan a \<and> \<not> isnan b"
  by (cases a; cases b) simp_all

section \<open>The single degenerate bin\<close>

text \<open>
  C9. Called with a resolved (non-NaN) \<open>minVal\<close> and \<open>maxVal\<close> such that
  \<open>maxVal \<le> minVal\<close>, the uniform float histogram returns, for every image, every bin
  count and whatever \<open>cv::minMaxLoc\<close> reports, exactly one bin, whose lower edge is
  \<open>minVal\<close>, with the single count 0; it does not fail and leaves \<open>minVal\<close> and \<open>maxVal\<close>
  as given.
\<close>

theorem histFloat_single_bin:
  assumes "fle maxVal minVal"
  shows "histFloat minMaxLoc img binCount minVal maxVal =
    Inr \<lparr>out_minVal = minVal, out_maxVal = maxVal, out_bins = [minVal], out_hist = [0]\<rparr>"
  using assms fle_isnan [OF assms] by (simp add: histFloat_def Let_def)

theorem histFloat_single_bin_witness:
  "histFloat (\<lambda>img. (Fin 1, Fin 9)) (Mat32F [[Fin 1, Fin 9]]) 10 (Fin 5) (Fin 5) =
    Inr \<lparr>out_minVal = Fin 5, out_maxVal = Fin 5, out_bins = [Fin 5], out_hist = [0]\<rparr>"
proof -
  have "fle (Fin 5) (Fin 5)" by simp
  from histFloat_single_bin [OF this] show ?thesis .
qed

section \<open>The conversion policy\<close>

text \<open>
  C1. The source's comment on the first branch of \<open>convertForSave\<close> reads "for 16U, 32F,
  32S to non-tiff, auto-range to 8u", and the branch hands every such image to
  \<open>histPercentiles\<close>. That function has no case for \<open>CV_32S\<close>: for every single-channel
  Int32 buffer and every target whose normalised extension is neither tif nor tiff,
  \<open>convertForSave\<close> fails in \<open>bail\<close> and neither rescales the buffer nor returns a flag.
\<close>

theorem convertForSave_Int32_fails:
  assumes "getNormalizedExt inputExt \<noteq> ''tif''" and "getNormalizedExt inputExt \<noteq> ''tiff''"
  shows "convertForSave getNormalizedExt minMaxLoc (Mat32S rs) inputExt =
    Inl (Bail ''histPercentiles: Unsupported image type'')"
  using assms by (simp add: convertForSave_def histPercentiles_def)

theorem convertForSave_Int32_fails_witness:
  "convertForSave (\<lambda>ext. ext) (\<lambda>img. (Fin 5, Fin 5)) (Mat32S [[5]]) ''png'' =
    Inl (Bail ''histPercentiles: Unsupported image type'')"
  using convertForSave_Int32_fails [of "\<lambda>ext. ext" "''png''" "\<lambda>img. (Fin 5, Fin 5)" "[[5]]"]
  by simp

text \<open>
  C2, as stated, fails: a single-channel UInt8 buffer saved as pbm is passed through
  \<open>img.convertTo(dst, CV_8UC1)\<close>, so the returned buffer has the encoding and the channel
  layout of the input, and the flag is true.
\<close>

theorem convertForSave_same_type_counterexample:
  "convertForSave (\<lambda>ext. ext) (\<lambda>img. (Fin 5, Fin 5)) (Mat8U [[5]]) ''pbm'' =
     Inr (True, ConvertTo CV_8U) \<and>
   dst_type (Mat8U [[5]]) (ConvertTo CV_8U) = mtype (Mat8U [[5]])"
  by (simp add: convertForSave_def)

text \<open>
  C2, amended. When \<open>convertForSave\<close> returns, a false flag means that \<open>dst\<close> is the input
  itself, hence of the input's encoding and channel layout. A true flag comes with a
  buffer of another encoding or layout, with one exception: a single-channel UInt8 input
  with target pbm or pgm, where \<open>convertTo(CV_8UC1)\<close> gives a buffer of the input's own
  type and the flag is true.
\<close>

theorem convertForSave_isChanged:
  assumes "convertForSave getNormalizedExt minMaxLoc img inputExt = Inr (isChanged, dst)"
  shows "(\<not> isChanged \<longrightarrow> dst = SameAsImg \<and> dst_type img dst = mtype img) \<and>
    (isChanged \<and> dst_type img dst = mtype img \<longrightarrow>
       mtype img = CV_8U \<and> dst = ConvertTo CV_8U \<and>
       (getNormalizedExt inputExt = ''pbm'' \<or> getNormalizedExt inputExt = ''pgm''))"
  using assms
  by (cases "mtype img")
    (auto simp: convertForSave_def Let_def split: if_splits sum.splits)

theorem convertForSave_isChanged_witness:
  "convertForSave (\<lambda>ext. ext) (\<lambda>img. (Fin 5, Fin 5)) (Mat8UC3 [[1, 2, 3]]) ''ppm'' =
     Inr (False, SameAsImg) \<and>
   dst_type (Mat8UC3 [[1, 2, 3]]) SameAsImg = mtype (Mat8UC3 [[1, 2, 3]])"
proof -
  have run: "convertForSave (\<lambda>ext. ext) (\<lambda>img. (Fin 5, Fin 5)) (Mat8UC3 [[1, 2, 3]]) ''ppm'' =
      Inr (False, SameAsImg)"
    by (simp add: convertForSave_def)
  from convertForSave_isChanged [OF run] run show ?thesis by simp
qed

text \<open>
  C10. For every single-channel UInt16, Int32 or Float32 buffer whose target is ppm, pbm
  or pgm, \<open>convertForSave\<close> is its first branch: the 1st/99th percentile range, then
  \<open>imgTo8u\<close> (a failure of either is the failure of the call). And for every buffer and
  target, when the result is the gray-to-BGR replication or the cast \<open>convertTo(CV_8UC1)\<close>,
  the input is single-channel UInt8.
\<close>

theorem convertForSave_rescale_first:
  "((mtype img = CV_16U \<or> mtype img = CV_32S \<or> mtype img = CV_32F) \<and>
    (getNormalizedExt inputExt = ''ppm'' \<or> getNormalizedExt inputExt = ''pbm'' \<or>
     getNormalizedExt inputExt = ''pgm'') \<longrightarrow>
    convertForSave getNormalizedExt minMaxLoc img inputExt =
      (case histPercentiles minMaxLoc img (Fin 1) (Fin 99) of
         Inl e \<Rightarrow> Inl e
       | Inr t \<Rightarrow>
           (case imgTo8u minMaxLoc img (fst t) (snd t) of
              Inl e \<Rightarrow> Inl e
            | Inr d \<Rightarrow> Inr (True, ImgTo8u d)))) \<and>
   (convertForSave getNormalizedExt minMaxLoc img inputExt = Inr (isChanged, CvtColor COLOR_GRAY2BGR) \<or>
    convertForSave getNormalizedExt minMaxLoc img inputExt = Inr (isChanged, ConvertTo CV_8U) \<longrightarrow>
    mtype img = CV_8U)"
  by (cases "mtype img")
    (auto simp: convertForSave_def Let_def split: if_splits sum.splits)

theorem convertForSave_rescale_first_witness:
  "convertForSave (\<lambda>ext. ext) (\<lambda>img. (Fin (- 4), Fin 0)) (Mat32F [[Fin (- 4), Fin 0]]) ''ppm'' =
     Inr (True, ImgTo8u [[Some 0, Some 255]]) \<and>
   convertForSave (\<lambda>ext. ext) (\<lambda>img. (Fin 5, Fin 5)) (Mat8U [[5]]) ''ppm'' =
     Inr (True, CvtColor COLOR_GRAY2BGR) \<and>
   mtype (Mat8U [[5]]) = CV_8U"
proof -
  let ?mml = "\<lambda>img::Mat. (Fin (- 4), Fin 0)"
  let ?img = "Mat32F [[Fin (- 4), Fin 0]]"
  have branch:
    "(case histPercentiles ?mml ?img (Fin 1) (Fin 99) of
        Inl e \<Rightarrow> Inl e
      | Inr t \<Rightarrow>
          (case imgTo8u ?mml ?img (fst t) (snd t) of
             Inl e \<Rightarrow> Inl e
           | Inr d \<Rightarrow> Inr (True, ImgTo8u d))) = Inr (True, ImgTo8u [[Some 0, Some 255]])"
    by code_simp
  have first: "convertForSave (\<lambda>ext. ext) ?mml ?img ''ppm'' = Inr (True, ImgTo8u [[Some 0, Some 255]])"
    using convertForSave_rescale_first
      [where img = ?img and getNormalizedExt = "\<lambda>ext. ext" and inputExt = "''ppm''"
        and minMaxLoc = ?mml, THEN conjunct1]
    by (simp add: branch)
  have run: "convertForSave (\<lambda>ext. ext) (\<lambda>img. (Fin 5, Fin 5)) (Mat8U [[5]]) ''ppm'' =
      Inr (True, CvtColor COLOR_GRAY2BGR)"
    by (simp add: convertForSave_def)
  have "mtype (Mat8U [[5]]) = CV_8U"
    using convertForSave_rescale_first
      [where img = "Mat8U [[5]]" and getNormalizedExt = "\<lambda>ext. ext" and inputExt = "''ppm''"
        and minMaxLoc = "\<lambda>img. (Fin 5, Fin 5)" and isChanged = True, THEN conjunct2]
      run
    by blast
  with first run show ?thesis by simp
qed

section \<open>Buffers without a valid sample\<close>

lemma minmax_row_all_nan: "list_all isnan p \<Longrightarrow> minmax_row p acc = acc"
proof (cases acc)
  case (Pair lowVal highVal)
  assume "list_all isnan p"
  then have "minmax_row p (lowVal, highVal) = (lowVal, highVal)"
    by (induction p) simp_all
  with Pair show ?thesis by simp
qed

lemma minmax_rows_all_nan: "list_all (list_all isnan) rs \<Longrightarrow> minmax_rows rs acc = acc"
  by (induction rs) (simp_all add: minmax_row_all_nan)

lemma imgMinMax_all_nan:
  assumes "list_all (list_all isnan) rs"
    and "isnan (fst (minMaxLoc (Mat32F rs))) \<or> isnan (snd (minMaxLoc (Mat32F rs)))"
  shows "imgMinMax minMaxLoc (Mat32F rs) = Inr (NaN, NaN)"
  using assms
  by (auto simp: imgMinMax_def Let_def minmax_rows_all_nan isnan_to_float FLT_MAX_def
      split: prod.splits)

text \<open>
  C8, as stated, fails: whether an all-NaN buffer is recognised depends on what
  \<open>cv::minMaxLoc\<close> reports for it. \<open>imgMinMax\<close> scans the buffer only when one of the two
  reported values is NaN (the source: "happens on mac os when any nan's in the image").
  Where the reduction reports numbers, here 0 and 0, \<open>histFloat\<close> takes them as they are and
  returns the single degenerate bin, not the empty histogram.
\<close>

theorem histFloat_all_NaN_counterexample:
  "histFloat (\<lambda>img. (Fin 0, Fin 0)) (Mat32F [[NaN, NaN]]) 10 NaN NaN =
     Inr \<lparr>out_minVal = Fin 0, out_maxVal = Fin 0, out_bins = [Fin 0], out_hist = [0]\<rparr>"
  by (simp add: histFloat_def imgMinMax_def Let_def round_to_zero)

text \<open>
  C8, amended. For every Float32 buffer whose every sample is NaN and for which
  \<open>cv::minMaxLoc\<close> reports NaN as the minimum or the maximum, the uniform float histogram
  called with an unspecified (NaN) \<open>maxVal\<close> does not fail and returns the empty
  histogram: no bins and no counts, whatever the bin count and \<open>minVal\<close> are.
\<close>

theorem histFloat_all_NaN_empty:
  assumes "list_all (list_all isnan) rs"
    and "isnan (fst (minMaxLoc (Mat32F rs))) \<or> isnan (snd (minMaxLoc (Mat32F rs)))"
  shows "histFloat minMaxLoc (Mat32F rs) binCount minVal NaN =
    Inr \<lparr>out_minVal = (if isnan minVal then Fin 0 else minVal), out_maxVal = NaN,
         out_bins = [], out_hist = []\<rparr>"
  using assms by (simp add: histFloat_def imgMinMax_all_nan Let_def)

theorem histFloat_all_NaN_empty_witness:
  "histFloat (\<lambda>img. (NaN, NaN)) (Mat32F [[NaN, NaN], [NaN, NaN]]) 10 NaN NaN =
     Inr \<lparr>out_minVal = Fin 0, out_maxVal = NaN, out_bins = [], out_hist = []\<rparr>"
  using histFloat_all_NaN_empty
    [of "[[NaN, NaN], [NaN, NaN]]" "\<lambda>img. (NaN, NaN)" 10 NaN]
  by simp


section \<open>Rescaling to the byte range\<close>

text \<open>
  C5, as stated, fails: \<open>imgTo8u\<close> converts with \<open>cv::convertScaleAbs\<close>, which takes the
  absolute value of the scaled sample before it saturates. With the range 10 to 20 the
  sample 0 scales to -255 and is stored as 255; clamping the rounded product to 0..255, as
  the claim has it, would store 0.
\<close>

theorem imgTo8u_negative_counterexample:
  "imgTo8u (\<lambda>img. (Fin 0, Fin 20)) (Mat32F [[Fin 0, Fin 10, Fin 20]]) (Fin 10) (Fin 20) =
     Inr [[Some 255, Some 0, Some 255]] \<and>
   saturate_uchar (cvRound (255 / (20 - 10) * 0 + - (255 / (20 - 10)) * 10)) = 0"
  by code_simp

text \<open>
  C5, amended. \<open>imgTo8u\<close> computes \<open>scale\<close> as 255 divided (in \<open>double\<close>) by the
  \<open>float\<close> difference \<open>highVal - lowVal\<close>, narrowed to \<open>float\<close>, and \<open>offset\<close> as the
  \<open>float\<close> product \<open>-scale * lowVal\<close>; it stores for every sample the absolute value of
  \<open>scale * input + offset\<close> (product and sum in \<open>float\<close>), rounded to the nearest integer
  and saturated at 255: a negative value is replaced by its absolute value, not clamped
  to 0. The range is the given one unless \<open>highVal \<le> lowVal\<close>; then it is the pair
  \<open>imgMinMax\<close> computes for the buffer.
\<close>

theorem imgTo8u_scale_abs:
  "(\<not> fle highVal lowVal \<longrightarrow>
      imgTo8u minMaxLoc img lowVal highVal =
        Inr (map (map (\<lambda>v. case fabs (fadd (fmul (to_float v) (to_float (ddiv (Fin 255) (fsub highVal lowVal))))
                                  (fmul (fneg (to_float (ddiv (Fin 255) (fsub highVal lowVal)))) lowVal)) of
                     Fin r \<Rightarrow> Some (saturate_uchar (cvRound r))
                   | _ \<Rightarrow> None))
       (samples img))) \<and>
   (fle highVal lowVal \<and> imgMinMax minMaxLoc img = Inr (minVal, maxVal) \<longrightarrow>
      imgTo8u minMaxLoc img lowVal highVal =
        Inr (map (map (\<lambda>v. case fabs (fadd (fmul (to_float v) (to_float (ddiv (Fin 255) (fsub maxVal minVal))))
                                  (fmul (fneg (to_float (ddiv (Fin 255) (fsub maxVal minVal)))) minVal)) of
                     Fin r \<Rightarrow> Some (saturate_uchar (cvRound r))
                   | _ \<Rightarrow> None))
       (samples img)))"
  by (simp add: imgTo8u_def Let_def convertScaleAbs_def convertScaleAbs_sample_def)

theorem imgTo8u_scale_abs_witness:
  "imgTo8u (\<lambda>img. (Fin 0, Fin 14)) (Mat8U [[7]]) (Fin 0) (Fin 14) = Inr [[Some 127]] \<and>
   imgTo8u (\<lambda>img. (Fin 10, Fin 30)) (Mat8U [[10, 15, 30]]) (Fin 0) (Fin 0) =
     Inr [[Some 0, Some 64, Some 255]]"
proof -
  have given: "\<not> fle (Fin 14) (Fin 0)" by simp
  have r1: "map (map (\<lambda>v. case fabs (fadd (fmul (to_float v) (to_float (ddiv (Fin 255) (fsub (Fin 14) (Fin 0)))))
                                  (fmul (fneg (to_float (ddiv (Fin 255) (fsub (Fin 14) (Fin 0))))) (Fin 0))) of
                     Fin r \<Rightarrow> Some (saturate_uchar (cvRound r))
                   | _ \<Rightarrow> None))
       (samples (Mat8U [[7]])) = [[Some 127]]"
    by code_simp
  have unset: "fle (Fin 0) (Fin 0)" by simp
  have mm: "imgMinMax (\<lambda>img. (Fin 10, Fin 30)) (Mat8U [[10, 15, 30]]) = Inr (Fin 10, Fin 30)"
    by code_simp
  have r2: "map (map (\<lambda>v. case fabs (fadd (fmul (to_float v) (to_float (ddiv (Fin 255) (fsub (Fin 30) (Fin 10)))))
                                  (fmul (fneg (to_float (ddiv (Fin 255) (fsub (Fin 30) (Fin 10))))) (Fin 10))) of
                     Fin r \<Rightarrow> Some (saturate_uchar (cvRound r))
                   | _ \<Rightarrow> None))
       (samples (Mat8U [[10, 15, 30]])) = [[Some 0, Some 64, Some 255]]"
    by code_simp
  from imgTo8u_scale_abs
    [where highVal = "Fin 14" and lowVal = "Fin 0" and img = "Mat8U [[7]]"
      and minMaxLoc = "\<lambda>img. (Fin 0, Fin 14)", THEN conjunct1, rule_format, OF given]
  have first: "imgTo8u (\<lambda>img. (Fin 0, Fin 14)) (Mat8U [[7]]) (Fin 0) (Fin 14) = Inr [[Some 127]]"
    unfolding r1 .
  from imgTo8u_scale_abs
    [where highVal = "Fin 0" and lowVal = "Fin 0" and img = "Mat8U [[10, 15, 30]]"
      and minMaxLoc = "\<lambda>img. (Fin 10, Fin 30)" and minVal = "Fin 10" and maxVal = "Fin 30",
      THEN conjunct2, rule_format, OF conjI [OF unset mm]]
  have second: "imgTo8u (\<lambda>img. (Fin 10, Fin 30)) (Mat8U [[10, 15, 30]]) (Fin 0) (Fin 0) =
      Inr [[Some 0, Some 64, Some 255]]"
    unfolding r2 .
  from first second show ?thesis by (rule conjI)
qed

section \<open>The range of the float percentiles\<close>



lemma length_calcHist_row: "length (calcHist_row binCount lo hi p hist) = length hist"
  by (induction p arbitrary: hist) (simp_all split: option.splits)








section \<open>The exact integer histogram\<close>

lemma sum_list_incr:
  "i < length counts \<Longrightarrow> sum_list (counts[i := counts ! i + 1]) = sum_list counts + (1::int)"
proof (induction counts arbitrary: i)
  case Nil
  then show ?case by simp
next
  case (Cons c cs)
  then show ?case by (cases i) simp_all
qed

lemma histInt_row_counts:
  assumes "\<forall>v \<in> set ps. drop_bit s (unat v) < length counts"
  shows "\<exists>c'. histInt_row s ps counts = Inr c' \<and> length c' = length counts \<and>
    sum_list c' = sum_list counts + int (length ps) \<and>
    (\<forall>k < length counts.
       c' ! k = counts ! k + int (length (filter (\<lambda>v. drop_bit s (unat v) = k) ps)))"
  using assms
proof (induction ps arbitrary: counts)
  case Nil
  then show ?case by simp
next
  case (Cons v ps)
  let ?i = "drop_bit s (unat v)"
  let ?c = "counts[?i := counts ! ?i + 1]"
  from Cons.prems have i: "?i < length counts" by simp
  from Cons.prems have "\<forall>v \<in> set ps. drop_bit s (unat v) < length ?c" by simp
  from Cons.IH [OF this] obtain c' where
    run: "histInt_row s ps ?c = Inr c'" and len: "length c' = length counts" and
    total: "sum_list c' = sum_list ?c + int (length ps)" and
    slots: "\<forall>k < length counts.
       c' ! k = ?c ! k + int (length (filter (\<lambda>v. drop_bit s (unat v) = k) ps))"
    by auto
  have "histInt_row s (v # ps) counts = Inr c'"
    using i run by (simp add: incr_at_def)
  moreover have "sum_list c' = sum_list counts + int (length (v # ps))"
    using total sum_list_incr [OF i] by simp
  moreover have "\<forall>k < length counts.
       c' ! k = counts ! k + int (length (filter (\<lambda>v. drop_bit s (unat v) = k) (v # ps)))"
    using slots i by (auto simp: nth_list_update)
  ultimately show ?case using len by blast
qed

lemma histInt_rows_counts:
  assumes "\<forall>ps \<in> set rs. \<forall>v \<in> set ps. drop_bit s (unat v) < length counts"
  shows "\<exists>c'. histInt_rows s rs counts = Inr c' \<and> length c' = length counts \<and>
    sum_list c' = sum_list counts + int (length (concat rs)) \<and>
    (\<forall>k < length counts.
       c' ! k = counts ! k + int (length (filter (\<lambda>v. drop_bit s (unat v) = k) (concat rs))))"
  using assms
proof (induction rs arbitrary: counts)
  case Nil
  then show ?case by simp
next
  case (Cons ps rs)
  from Cons.prems have "\<forall>v \<in> set ps. drop_bit s (unat v) < length counts" by simp
  from histInt_row_counts [OF this] obtain c1 where
    row: "histInt_row s ps counts = Inr c1" and len1: "length c1 = length counts" and
    total1: "sum_list c1 = sum_list counts + int (length ps)" and
    slots1: "\<forall>k < length counts.
       c1 ! k = counts ! k + int (length (filter (\<lambda>v. drop_bit s (unat v) = k) ps))"
    by auto
  from Cons.prems len1 have "\<forall>ps \<in> set rs. \<forall>v \<in> set ps. drop_bit s (unat v) < length c1"
    by simp
  from Cons.IH [OF this] len1 obtain c' where
    run: "histInt_rows s rs c1 = Inr c'" and len: "length c' = length counts" and
    total: "sum_list c' = sum_list c1 + int (length (concat rs))" and
    slots: "\<forall>k < length counts.
       c' ! k = c1 ! k + int (length (filter (\<lambda>v. drop_bit s (unat v) = k) (concat rs)))"
    by auto
  have "histInt_rows s (ps # rs) counts = Inr c'"
    using row run by simp
  moreover have "sum_list c' = sum_list counts + int (length (concat (ps # rs)))"
    using total total1 by simp
  moreover have "\<forall>k < length counts.
       c' ! k = counts ! k +
         int (length (filter (\<lambda>v. drop_bit s (unat v) = k) (concat (ps # rs))))"
    using slots slots1 by simp
  ultimately show ?case using len by blast
qed

lemma slot_in_range:
  fixes v :: "'a::len word"
  assumes "s \<le> LENGTH('a)"
  shows "drop_bit s (unat v) < drop_bit s (2 ^ LENGTH('a))"
proof -
  have "unat v < 2 ^ LENGTH('a)" by (rule unsigned_less)
  also have "(2::nat) ^ LENGTH('a) = 2 ^ (LENGTH('a) - s) * 2 ^ s"
    using assms by (simp flip: power_add)
  finally have "unat v div 2 ^ s < 2 ^ (LENGTH('a) - s)"
    by (simp add: less_mult_imp_div_less)
  moreover have "(2::nat) ^ LENGTH('a) div 2 ^ s = 2 ^ (LENGTH('a) - s)"
    using assms by (simp add: power_diff)
  ultimately show ?thesis by (simp add: drop_bit_eq_div)
qed

lemma histInt_rows_zero:
  fixes rs :: "'a::len word list list"
  assumes "s \<le> LENGTH('a)"
  shows "\<exists>counts. histInt_rows s rs (replicate (drop_bit s (2 ^ LENGTH('a))) 0) = Inr counts \<and>
    length counts = drop_bit s (2 ^ LENGTH('a)) \<and>
    sum_list counts = int (length (concat rs)) \<and>
    (\<forall>k < length counts.
       counts ! k = int (length (filter (\<lambda>v. drop_bit s (unat v) = k) (concat rs))))"
proof -
  let ?zero = "replicate (drop_bit s ((2::nat) ^ LENGTH('a))) (0::int)"
  have "\<forall>ps \<in> set rs. \<forall>v \<in> set ps. drop_bit s (unat v) < length ?zero"
    using slot_in_range [OF assms] by simp
  from histInt_rows_counts [OF this] show ?thesis
    by (auto simp: sum_list_replicate)
qed

text \<open>
  C7, amended. For every UInt8 buffer and every bit-shift \<open>s\<close> from 0 to 8, and for every
  UInt16 buffer and every \<open>s\<close> from 0 to 16, \<open>histInt(img, s)\<close> returns exactly
  \<open>256 >> s\<close>, respectively \<open>65536 >> s\<close>, counting slots, and slot \<open>k\<close> holds the exact
  number of samples \<open>v\<close> of the buffer with \<open>(v >> s) = k\<close>; with \<open>s = 0\<close>, the number
  of samples equal to \<open>k\<close>.
\<close>

theorem histInt_shift_exact:
  "(0 \<le> s \<and> s \<le> 8 \<longrightarrow>
      (\<exists>counts. histInt_shift (Mat8U rs) s = Inr counts \<and>
         length counts = drop_bit (nat s) 256 \<and>
         (\<forall>k < length counts.
            counts ! k = int (length (filter (\<lambda>v. drop_bit (nat s) (unat v) = k) (concat rs)))))) \<and>
   (0 \<le> s \<and> s \<le> 16 \<longrightarrow>
      (\<exists>counts. histInt_shift (Mat16U rs') s = Inr counts \<and>
         length counts = drop_bit (nat s) 65536 \<and>
         (\<forall>k < length counts.
            counts ! k = int (length (filter (\<lambda>v. drop_bit (nat s) (unat v) = k) (concat rs'))))))"
proof (intro conjI impI)
  assume "0 \<le> s \<and> s \<le> 8"
  then have "nat s \<le> LENGTH(8)" and "\<not> (s < 0 \<or> 31 < s)" by auto
  then show "\<exists>counts. histInt_shift (Mat8U rs) s = Inr counts \<and>
         length counts = drop_bit (nat s) 256 \<and>
         (\<forall>k < length counts.
            counts ! k = int (length (filter (\<lambda>v. drop_bit (nat s) (unat v) = k) (concat rs))))"
    using histInt_rows_zero [of "nat s" rs] by (auto simp: histInt_shift_def)
next
  assume "0 \<le> s \<and> s \<le> 16"
  then have "nat s \<le> LENGTH(16)" and "\<not> (s < 0 \<or> 31 < s)" by auto
  then show "\<exists>counts. histInt_shift (Mat16U rs') s = Inr counts \<and>
         length counts = drop_bit (nat s) 65536 \<and>
         (\<forall>k < length counts.
            counts ! k = int (length (filter (\<lambda>v. drop_bit (nat s) (unat v) = k) (concat rs'))))"
    using histInt_rows_zero [of "nat s" rs'] by (auto simp: histInt_shift_def)
qed

theorem histInt_shift_exact_witness:
  "histInt_shift (Mat8U [[0, 255, 128], [3, 4, 5]]) 6 = Inr [4, 0, 1, 1] \<and>
   length [4, 0, 1, 1 :: int] = drop_bit (nat 6) (256 :: nat)"
proof -
  have run: "histInt_shift (Mat8U [[0, 255, 128], [3, 4, 5]]) 6 = Inr [4, 0, 1, 1]"
    by code_simp
  from histInt_shift_exact [where s = 6 and rs = "[[0, 255, 128], [3, 4, 5]]", THEN conjunct1]
  obtain counts where "histInt_shift (Mat8U [[0, 255, 128], [3, 4, 5]]) 6 = Inr counts"
    and "length counts = drop_bit (nat 6) 256"
    by auto
  with run show ?thesis by simp
qed

text \<open>
  C7, as stated for every shift, fails: with \<open>s = 9\<close> the histogram of a UInt8 buffer has
  \<open>256 >> 9 = 0\<close> slots, and the first sample increments \<open>counts[0]\<close> past the end of the
  vector.
\<close>

theorem histInt_shift_counterexample:
  "histInt_shift (Mat8U [[0]]) 9 = Inl OutOfBounds \<and> drop_bit 9 (256::nat) = 0"
  by (simp add: histInt_shift_def incr_at_def drop_bit_eq_div)

section \<open>The sum of the counts\<close>

lemma calcHist_index_less:
  assumes "fle lo v" and "fless v hi" and "0 < n"
  shows "calcHist_index n lo hi v < n"
proof (cases "\<exists>a b x. lo = Fin a \<and> hi = Fin b \<and> v = Fin x")
  case True
  then obtain a b x where eqs: "lo = Fin a" "hi = Fin b" "v = Fin x" by blast
  with assms have range: "a \<le> x" "x < b" by simp_all
  then have "(x - a) / (b - a) < 1" by simp
  with \<open>0 < n\<close> have "(x - a) / (b - a) * of_nat n < 1 * of_nat n"
    by (intro mult_strict_right_mono) simp_all
  then have "(x - a) * of_nat n / (b - a) < of_int (int n)" by simp
  then have "\<lfloor>(x - a) * of_nat n / (b - a)\<rfloor> < int n" by (simp only: floor_less_iff)
  with eqs \<open>0 < n\<close> show ?thesis by simp
next
  case False
  then have "calcHist_index n lo hi v = 0"
    by (cases lo; cases hi; cases v) simp_all
  with \<open>0 < n\<close> show ?thesis by simp
qed

lemma calcHist_row_sum:
  assumes "0 < n" and "length hist = n"
  shows "sum_list (calcHist_row n lo hi p hist) =
    sum_list hist + int (length (filter (\<lambda>v. fle lo v \<and> fless v hi) p))"
  using assms(2)
proof (induction p arbitrary: hist)
  case Nil
  then show ?case by simp
next
  case (Cons v p)
  show ?case
  proof (cases "fle lo v \<and> fless v hi")
    case False
    then have "calcHist_bin n lo hi v = None" by (simp add: calcHist_bin_def)
    with False Cons show ?thesis by simp
  next
    case True
    then have bin: "calcHist_bin n lo hi v = Some (calcHist_index n lo hi v)"
      by (simp add: calcHist_bin_def)
    from True \<open>0 < n\<close> have "calcHist_index n lo hi v < length hist"
      using calcHist_index_less Cons.prems by simp
    with True bin Cons show ?thesis by (simp add: sum_list_incr)
  qed
qed

lemma calcHist_rows_sum:
  assumes "0 < n" and "length hist = n"
  shows "sum_list (calcHist_rows n lo hi rs hist) =
    sum_list hist + int (length (filter (\<lambda>v. fle lo v \<and> fless v hi) (concat rs)))"
  using assms(2)
proof (induction rs arbitrary: hist)
  case Nil
  then show ?case by simp
next
  case (Cons p rs)
  then show ?case
    by (simp add: calcHist_row_sum [OF assms(1)] length_calcHist_row)
qed

lemma calcHist_sum:
  "0 < n \<Longrightarrow> sum_list (calcHist img n lo hi) =
    int (length (filter (\<lambda>v. fle lo v \<and> fless v hi) (concat (samples img))))"
  by (simp add: calcHist_def calcHist_rows_sum sum_list_replicate)

lemma histInt_sum:
  "\<exists>counts. histInt (Mat8U rs) = Inr counts \<and> sum_list counts = int (length (concat rs))"
  "\<exists>counts. histInt (Mat16U rs') = Inr counts \<and> sum_list counts = int (length (concat rs'))"
  using histInt_rows_zero [of 0 rs] histInt_rows_zero [of 0 rs']
  by (auto simp: histInt_def)

lemma histFloat_regular:
  assumes "maxGiven = maxVal \<or> isnan maxGiven \<and> imgMinMax minMaxLoc img = Inr (lowest, maxVal)"
    and "minVal = (if isnan minGiven then Fin 0 else minGiven)"
    and "fless minVal maxVal" and "0 < binCount"
  shows "histFloat minMaxLoc img binCount minGiven maxGiven =
    Inr \<lparr>out_minVal = minVal, out_maxVal = (fadd maxVal (fmul lit_0_1f (fdiv (fsub maxVal minVal) (to_float (Fin (of_int binCount)))))),
         out_bins = map (\<lambda>i. fadd minVal (fmul (to_float (Fin (of_nat i))) (fdiv (fsub maxVal minVal) (to_float (Fin (of_int binCount))))))
                      [0..<nat binCount],
         out_hist = calcHist img (nat binCount) minVal (fadd maxVal (fmul lit_0_1f (fdiv (fsub maxVal minVal) (to_float (Fin (of_int binCount))))))\<rparr>"
  using assms fless_not_fle [OF assms(3)]
  by (auto simp: histFloat_def Let_def)

text \<open>
  C6, as stated, fails for the uniform float histogram: a sample outside the range of the
  histogram is not counted, and the range starts at \<open>minVal\<close>, which is 0 when it is not
  given. For the buffer -1, 1 and four bins the counts sum to 1, and the buffer has two
  non-NaN samples.
\<close>

theorem histogram_sum_counterexample:
  "map_sum id (\<lambda>h. sum_list (out_hist h))
     (histFloat (\<lambda>img. (Fin (- 1), Fin 1)) (Mat32F [[Fin (- 1), Fin 1]]) 4 NaN NaN) = Inr 1 \<and>
   length (filter (\<lambda>v. \<not> isnan v) (concat (samples (Mat32F [[Fin (- 1), Fin 1]])))) = 2"
  by code_simp

text \<open>
  C6, amended. The counts of the exact integer histogram of a UInt8 or UInt16 buffer sum
  to the number of samples of the buffer. For the uniform float histogram, let \<open>minVal\<close>
  be the given lower bound, or 0 when it is unspecified (NaN), and \<open>maxVal\<close> the given
  upper bound, or the maximum \<open>imgMinMax\<close> reports when it is unspecified. When
  \<open>minVal < maxVal\<close> and the bin count is positive, the call returns the range from
  \<open>minVal\<close> to \<open>maxVal + 0.1f * binSize\<close>, where \<open>binSize = (maxVal - minVal) / binCount\<close>
  (all in \<open>float\<close>), and its counts sum to the number of samples \<open>v\<close> with
  \<open>minVal \<le> v < maxVal + 0.1f * binSize\<close>: the samples inside the range, not all
  non-NaN samples.
\<close>

theorem histogram_sum:
  "(\<exists>counts. histInt (Mat8U rs) = Inr counts \<and> sum_list counts = int (length (concat rs))) \<and>
   (\<exists>counts. histInt (Mat16U rs') = Inr counts \<and> sum_list counts = int (length (concat rs'))) \<and>
   ((maxGiven = maxVal \<or> isnan maxGiven \<and> imgMinMax minMaxLoc img = Inr (lowest, maxVal)) \<and>
    minVal = (if isnan minGiven then Fin 0 else minGiven) \<and>
    fless minVal maxVal \<and> 0 < binCount \<longrightarrow>
      (\<exists>h. histFloat minMaxLoc img binCount minGiven maxGiven = Inr h \<and>
         out_minVal h = minVal \<and>
         out_maxVal h = (fadd maxVal (fmul lit_0_1f (fdiv (fsub maxVal minVal) (to_float (Fin (of_int binCount)))))) \<and>
         sum_list (out_hist h) =
           int (length (filter (\<lambda>v. fle minVal v \<and>
                                   fless v (fadd maxVal (fmul lit_0_1f (fdiv (fsub maxVal minVal) (to_float (Fin (of_int binCount)))))))
                          (concat (samples img))))))"
proof (intro conjI impI)
  show "\<exists>counts. histInt (Mat8U rs) = Inr counts \<and> sum_list counts = int (length (concat rs))"
    by (rule histInt_sum)
  show "\<exists>counts. histInt (Mat16U rs') = Inr counts \<and> sum_list counts = int (length (concat rs'))"
    by (rule histInt_sum)
  assume range: "(maxGiven = maxVal \<or> isnan maxGiven \<and> imgMinMax minMaxLoc img = Inr (lowest, maxVal)) \<and>
    minVal = (if isnan minGiven then Fin 0 else minGiven) \<and>
    fless minVal maxVal \<and> 0 < binCount"
  then have src: "maxGiven = maxVal \<or> isnan maxGiven \<and> imgMinMax minMaxLoc img = Inr (lowest, maxVal)"
    and low: "minVal = (if isnan minGiven then Fin 0 else minGiven)"
    and usable: "fless minVal maxVal" and bins: "0 < binCount"
    by blast+
  from bins have "0 < nat binCount" by simp
  then have total: "sum_list (calcHist img (nat binCount) minVal (fadd maxVal (fmul lit_0_1f (fdiv (fsub maxVal minVal) (to_float (Fin (of_int binCount))))))) =
      int (length (filter (\<lambda>v. fle minVal v \<and>
                                   fless v (fadd maxVal (fmul lit_0_1f (fdiv (fsub maxVal minVal) (to_float (Fin (of_int binCount)))))))
                     (concat (samples img))))"
    by (rule calcHist_sum)
  show "\<exists>h. histFloat minMaxLoc img binCount minGiven maxGiven = Inr h \<and>
         out_minVal h = minVal \<and>
         out_maxVal h = (fadd maxVal (fmul lit_0_1f (fdiv (fsub maxVal minVal) (to_float (Fin (of_int binCount)))))) \<and>
         sum_list (out_hist h) =
           int (length (filter (\<lambda>v. fle minVal v \<and>
                                   fless v (fadd maxVal (fmul lit_0_1f (fdiv (fsub maxVal minVal) (to_float (Fin (of_int binCount)))))))
                          (concat (samples img))))"
    unfolding histFloat_regular [OF src low usable bins] using total by simp
qed

theorem histogram_sum_witness:
  "histFloat (\<lambda>img. (Fin 1, Fin 2)) (Mat32F [[Fin 1, Fin 2, NaN]]) 4 NaN NaN =
     Inr \<lparr>out_minVal = Fin 0, out_maxVal = Fin (8598323 / 4194304),
          out_bins = [Fin 0, Fin (1 / 2), Fin 1, Fin (3 / 2)], out_hist = [0, 1, 0, 1]\<rparr> \<and>
   sum_list [0, 1, 0, 1] =
     int (length (filter (\<lambda>v. fle (Fin 0) v \<and> fless v (Fin (8598323 / 4194304)))
                    (concat (samples (Mat32F [[Fin 1, Fin 2, NaN]])))))"
proof -
  let ?h = "\<lparr>out_minVal = Fin 0, out_maxVal = Fin (8598323 / 4194304),
          out_bins = [Fin 0, Fin (1 / 2), Fin 1, Fin (3 / 2)], out_hist = [0, 1, 0, 1]\<rparr>"
  have run: "histFloat (\<lambda>img. (Fin 1, Fin 2)) (Mat32F [[Fin 1, Fin 2, NaN]]) 4 NaN NaN = Inr ?h"
    by code_simp
  have mm: "imgMinMax (\<lambda>img. (Fin 1, Fin 2)) (Mat32F [[Fin 1, Fin 2, NaN]]) = Inr (Fin 1, Fin 2)"
    by code_simp
  have upper: "(fadd (Fin 2) (fmul lit_0_1f (fdiv (fsub (Fin 2) (Fin 0)) (to_float (Fin (of_int 4)))))) = Fin (8598323 / 4194304)"
    by code_simp
  have range: "(NaN = Fin 2 \<or>
      isnan NaN \<and> imgMinMax (\<lambda>img. (Fin 1, Fin 2)) (Mat32F [[Fin 1, Fin 2, NaN]]) = Inr (Fin 1, Fin 2)) \<and>
    Fin 0 = (if isnan NaN then Fin 0 else NaN) \<and> fless (Fin 0) (Fin 2) \<and> (0::int) < 4"
    using mm by simp
  from histogram_sum
    [where minMaxLoc = "\<lambda>img. (Fin 1, Fin 2)" and img = "Mat32F [[Fin 1, Fin 2, NaN]]"
      and binCount = 4 and minGiven = NaN and maxGiven = NaN and minVal = "Fin 0"
      and maxVal = "Fin 2" and lowest = "Fin 1",
      THEN conjunct2, THEN conjunct2, rule_format, OF range]
  obtain h where
    "histFloat (\<lambda>img. (Fin 1, Fin 2)) (Mat32F [[Fin 1, Fin 2, NaN]]) 4 NaN NaN = Inr h" and
    "sum_list (out_hist h) =
       int (length (filter (\<lambda>v. fle (Fin 0) v \<and> fless v (fadd (Fin 2) (fmul lit_0_1f (fdiv (fsub (Fin 2) (Fin 0)) (to_float (Fin (of_int 4)))))))
                      (concat (samples (Mat32F [[Fin 1, Fin 2, NaN]])))))"
    by blast
  with run upper show ?thesis by simp
qed

section \<open>Percentiles of a buffer without a valid sample\<close>

text \<open>
  C3. \<open>imgMinMax\<close> ("handle all nan") and \<open>histFloat\<close> ("no non-nan values in image")
  treat the buffer whose every sample is NaN on purpose: where \<open>cv::minMaxLoc\<close> reports
  NaN, \<open>histFloat\<close> returns no bins and no counts. \<open>histPercentiles32f\<close> does not look at
  that result: it hands the empty counts to the percentile finder and indexes the empty
  \<open>bins\<close>. For every such buffer and every pair of percentiles the call fails; no pair of
  NaN is returned.
\<close>

theorem histPercentiles32f_all_NaN_fails:
  assumes "list_all (list_all isnan) rs"
    and "isnan (fst (minMaxLoc (Mat32F rs))) \<or> isnan (snd (minMaxLoc (Mat32F rs)))"
  shows "histPercentiles32f minMaxLoc (Mat32F rs) lowPct highPct = Inl InvalidArgument"
  using assms
  by (simp add: histPercentiles32f_def histFloat_def imgMinMax_all_nan Let_def
      findPercentileInHist_def)

theorem histPercentiles32f_all_NaN_fails_witness:
  "histPercentiles32f (\<lambda>img. (NaN, NaN)) (Mat32F [[NaN, NaN]]) (Fin 1) (Fin 99) =
     Inl InvalidArgument"
  using histPercentiles32f_all_NaN_fails [of "[[NaN, NaN]]" "\<lambda>img. (NaN, NaN)" "Fin 1" "Fin 99"]
  by simp


end
